theory Spec2Isabelle
  imports Main "HOL-Library.Option_ord" "HOL-Library.Multiset"
begin

section \<open>Values exchanged with the caller\<close>

text \<open>
  The tools of \<^verbatim>\<open>server.py\<close> receive JSON arguments. The arguments \<^verbatim>\<open>roadmap\<close> and
  \<^verbatim>\<open>coach_notes\<close> are duck typed: the code asks \<^verbatim>\<open>isinstance(x, str)\<close> and parses a
  string with \<^verbatim>\<open>json.loads\<close>, using any other value as it is. A Python value of that kind
  is a \<open>json\<close>: \<open>JNull\<close> is \<^verbatim>\<open>None\<close>, \<open>JStr\<close> a \<^verbatim>\<open>str\<close>, \<open>JArr\<close> a \<^verbatim>\<open>list\<close> and
  \<open>JObj\<close> a \<^verbatim>\<open>dict\<close> with its items in insertion order, each key once. Numbers are
  integers here; no operation of the server inspects a number.
\<close>

datatype json =
    JNull
  | JBool bool
  | JInt int
  | JStr string
  | JArr "json list"
  | JObj "(string \<times> json) list"

datatype 'a result = Error string | Ok 'a

text \<open>The name Python prints for the type of a value, as it appears in exception texts.\<close>

fun type_name :: "json \<Rightarrow> string" where
  "type_name JNull = ''NoneType''"
| "type_name (JBool b) = ''bool''"
| "type_name (JInt n) = ''int''"
| "type_name (JStr s) = ''str''"
| "type_name (JArr xs) = ''list''"
| "type_name (JObj kvs) = ''dict''"

definition quoted :: "string \<Rightarrow> string" where
  "quoted s = [CHR 0x27] @ s @ [CHR 0x27]"

text \<open>Truth value of \<^verbatim>\<open>if x:\<close>.\<close>

fun truthy :: "json \<Rightarrow> bool" where
  "truthy JNull = False"
| "truthy (JBool b) = b"
| "truthy (JInt n) = (n \<noteq> 0)"
| "truthy (JStr s) = (s \<noteq> [])"
| "truthy (JArr xs) = (xs \<noteq> [])"
| "truthy (JObj kvs) = (kvs \<noteq> [])"

text \<open>
  \<^verbatim>\<open>json.loads(x) if isinstance(x, str) else x\<close>. The parser belongs to the Python
  library, so it is the parameter \<open>loads\<close>; \<open>None\<close> stands for \<^verbatim>\<open>JSONDecodeError\<close>.
\<close>

definition loads_if_str :: "(string \<Rightarrow> json option) \<Rightarrow> json \<Rightarrow> json option" where
  "loads_if_str loads x = (case x of JStr s \<Rightarrow> loads s | _ \<Rightarrow> Some x)"

text \<open>
  The elements \<^verbatim>\<open>enumerate(x)\<close> walks through: the items of a list, the keys of a dict,
  the characters of a string. Any other value raises \<^verbatim>\<open>TypeError\<close>, whose text is the
  error.
\<close>

fun iterate :: "json \<Rightarrow> json list result" where
  "iterate (JArr xs) = Ok xs"
| "iterate (JObj kvs) = Ok (map (\<lambda>kv. JStr (fst kv)) kvs)"
| "iterate (JStr s) = Ok (map (\<lambda>c. JStr [c]) s)"
| "iterate v = Error (quoted (type_name v) @ '' object is not iterable'')"

text \<open>\<^verbatim>\<open>d.get(key, default)\<close> on a dict.\<close>

definition dict_get :: "(string \<times> json) list \<Rightarrow> string \<Rightarrow> json \<Rightarrow> json" where
  "dict_get kvs k d = (case map_of kvs k of Some v \<Rightarrow> v | None \<Rightarrow> d)"

text \<open>Decimal digits of a number, as an f-string prints \<^verbatim>\<open>{idx + 1}\<close>.\<close>

definition digit :: "nat \<Rightarrow> char" where
  "digit d = char_of (48 + d)"

fun str_nat :: "nat \<Rightarrow> string" where
  "str_nat n = (if n < 10 then [digit n] else str_nat (n div 10) @ [digit (n mod 10)])"

declare str_nat.simps [simp del]

section \<open>Entities\<close>

text \<open>
  Modelled from the spec: the module \<^verbatim>\<open>models\<close>, which \<^verbatim>\<open>server.py\<close> imports and which
  is not among the sources: the columns of User, Goal, Milestone, Task and Verification,
  the three task states, the verification type \<^verbatim>\<open>"text"\<close>, \<open>is_complete\<close> defaulting
  to false and \<open>created_at\<close> being set at creation. A \<open>timestamp\<close> counts time units
  since some epoch. A milestone's title and description hold whatever value
  \<^verbatim>\<open>create_goal\<close> read from the roadmap entry, and the store keeps it as it is.
\<close>

type_synonym timestamp = nat

datatype TaskStatus = INCOMPLETE | IN_PROGRESS | COMPLETE

datatype VerificationType = TEXT

fun VerificationType_value :: "VerificationType \<Rightarrow> string" where
  "VerificationType_value TEXT = ''text''"

record User =
  u_id :: int
  u_username :: string
  u_email :: string
  u_learning_style :: "string option"
  u_created_at :: timestamp

record Goal =
  g_id :: int
  g_user_id :: int
  g_skill_name :: string
  g_timeline :: int
  g_coach_notes :: json

record Milestone =
  m_id :: int
  m_goal_id :: int
  m_title :: json
  m_description :: json
  m_order :: int
  m_is_complete :: bool
  m_completed_at :: "timestamp option"

record Task =
  t_id :: int
  t_goal_id :: int
  t_milestone_id :: "int option"
  t_title :: string
  t_description :: string
  t_status :: TaskStatus
  t_created_at :: timestamp
  t_completed_at :: "timestamp option"

record Verification =
  v_id :: int
  v_task_id :: int
  v_verification_type :: VerificationType
  v_content :: string
  v_requirements :: string

section \<open>The store and its sessions\<close>

text \<open>
  A table is the list of its rows in insertion order. \<^verbatim>\<open>get_db()\<close> opens a session of
  the object-relational mapper on the database, the unit of work of each tool:
  \<^verbatim>\<open>db.add\<close> and attribute assignments change only the session's pending state,
  \<^verbatim>\<open>db.commit()\<close> writes it to the database, \<^verbatim>\<open>db.rollback()\<close> drops it, and after
  \<^verbatim>\<open>db.close()\<close> the database is what was committed. No other session runs in between.
  Every tool is one function from the database before the call to the tool's answer and
  the database after it.
\<close>

record database =
  users :: "User list"
  goals :: "Goal list"
  milestones :: "Milestone list"
  tasks :: "Task list"
  verifications :: "Verification list"

record Session =
  committed :: database
  pending :: database

definition get_db :: "database \<Rightarrow> Session" where
  "get_db st = \<lparr>committed = st, pending = st\<rparr>"

definition commit :: "Session \<Rightarrow> Session" where
  "commit db = db\<lparr>committed := pending db\<rparr>"

definition rollback :: "Session \<Rightarrow> Session" where
  "rollback db = db\<lparr>pending := committed db\<rparr>"

definition close :: "Session \<Rightarrow> database" where
  "close db = committed db"

text \<open>Modelled from the spec: the server-assigned id of a new row, one above every id in use.\<close>

definition next_id :: "int list \<Rightarrow> int" where
  "next_id ids = foldr max ids 0 + 1"

text \<open>\<^verbatim>\<open>.first()\<close> of a query.\<close>

definition first :: "'a list \<Rightarrow> 'a option" where
  "first rows = (case rows of [] \<Rightarrow> None | r # _ \<Rightarrow> Some r)"

text \<open>
  \<^verbatim>\<open>.order_by(...)\<close>: the rows sorted by a key; rows with equal keys keep the order in
  which the table holds them. \<open>asc\<close> and \<open>desc\<close> are the two directions. A missing
  timestamp is below every timestamp, as SQLite sorts \<^verbatim>\<open>NULL\<close>.
\<close>

fun insert_row :: "('a \<Rightarrow> 'a \<Rightarrow> bool) \<Rightarrow> 'a \<Rightarrow> 'a list \<Rightarrow> 'a list" where
  "insert_row le r [] = [r]"
| "insert_row le r (x # xs) = (if le r x then r # x # xs else x # insert_row le r xs)"

definition order_by :: "('a \<Rightarrow> 'a \<Rightarrow> bool) \<Rightarrow> 'a list \<Rightarrow> 'a list" where
  "order_by le rows = foldr (insert_row le) rows []"

definition asc :: "('a \<Rightarrow> 'k::linorder) \<Rightarrow> 'a \<Rightarrow> 'a \<Rightarrow> bool" where
  "asc key a b = (key a \<le> key b)"

definition desc :: "('a \<Rightarrow> 'k::linorder) \<Rightarrow> 'a \<Rightarrow> 'a \<Rightarrow> bool" where
  "desc key a b = (key b \<le> key a)"

text \<open>\<^verbatim>\<open>db.add(row)\<close> for each table, and the write-back of a changed row by its id.\<close>

definition add_user :: "User \<Rightarrow> Session \<Rightarrow> Session" where
  "add_user u db = db\<lparr>pending := (pending db)\<lparr>users := users (pending db) @ [u]\<rparr>\<rparr>"

definition add_goal :: "Goal \<Rightarrow> Session \<Rightarrow> Session" where
  "add_goal g db = db\<lparr>pending := (pending db)\<lparr>goals := goals (pending db) @ [g]\<rparr>\<rparr>"

definition add_milestone :: "Milestone \<Rightarrow> Session \<Rightarrow> Session" where
  "add_milestone m db =
     db\<lparr>pending := (pending db)\<lparr>milestones := milestones (pending db) @ [m]\<rparr>\<rparr>"

definition add_task :: "Task \<Rightarrow> Session \<Rightarrow> Session" where
  "add_task t db = db\<lparr>pending := (pending db)\<lparr>tasks := tasks (pending db) @ [t]\<rparr>\<rparr>"

definition add_verification :: "Verification \<Rightarrow> Session \<Rightarrow> Session" where
  "add_verification v db =
     db\<lparr>pending := (pending db)\<lparr>verifications := verifications (pending db) @ [v]\<rparr>\<rparr>"

definition set_user :: "User \<Rightarrow> Session \<Rightarrow> Session" where
  "set_user u db =
     db\<lparr>pending := (pending db)
       \<lparr>users := map (\<lambda>r. if u_id r = u_id u then u else r) (users (pending db))\<rparr>\<rparr>"

definition set_goal :: "Goal \<Rightarrow> Session \<Rightarrow> Session" where
  "set_goal g db =
     db\<lparr>pending := (pending db)
       \<lparr>goals := map (\<lambda>r. if g_id r = g_id g then g else r) (goals (pending db))\<rparr>\<rparr>"

definition set_milestone :: "Milestone \<Rightarrow> Session \<Rightarrow> Session" where
  "set_milestone m db =
     db\<lparr>pending := (pending db)
       \<lparr>milestones := map (\<lambda>r. if m_id r = m_id m then m else r) (milestones (pending db))\<rparr>\<rparr>"

section \<open>User tools\<close>

text \<open>
  The answers of the tools are dicts; each is a record here, with the keys of the dict as
  field names. Timestamps are kept as they are stored (the code prints them with
  \<^verbatim>\<open>isoformat()\<close>). The parameter \<open>now\<close> is the clock read during the call.
\<close>

record user_response =
  r_user_id :: int
  r_username :: string
  r_email :: string
  r_learning_style :: "string option"
  r_created_at :: timestamp

definition user_projection :: "User \<Rightarrow> user_response" where
  "user_projection user =
     \<lparr>r_user_id = u_id user, r_username = u_username user, r_email = u_email user,
      r_learning_style = u_learning_style user, r_created_at = u_created_at user\<rparr>"

definition create_user ::
  "timestamp \<Rightarrow> database \<Rightarrow> string \<Rightarrow> string \<Rightarrow> string option
     \<Rightarrow> user_response result \<times> database" where
  "create_user now st username email learning_style =
     (let db = get_db st;
          existing_user =
            first (filter (\<lambda>u. u_username u = username \<or> u_email u = email)
                     (users (committed db)))
      in case existing_user of
           Some u \<Rightarrow> (Error ''Username or email already exists'', close db)
         | None \<Rightarrow>
             (let user = \<lparr>u_id = next_id (map u_id (users (pending db))),
                          u_username = username, u_email = email,
                          u_learning_style = learning_style, u_created_at = now\<rparr>;
                  db = add_user user db;
                  db = commit db
              in (Ok (user_projection user), close db)))"

definition update_user ::
  "database \<Rightarrow> int \<Rightarrow> string \<Rightarrow> user_response result \<times> database" where
  "update_user st user_id learning_style =
     (let db = get_db st in
      case first (filter (\<lambda>u. u_id u = user_id) (users (committed db))) of
        None \<Rightarrow> (Error ''User not found'', close db)
      | Some user \<Rightarrow>
          (let user = user\<lparr>u_learning_style := Some learning_style\<rparr>;
               db = set_user user db;
               db = commit db
           in (Ok (user_projection user), close db)))"

section \<open>Goal tools\<close>

record create_goal_response =
  cg_goal_id :: int
  cg_confirmation :: string
  cg_skill_name :: string
  cg_timeline :: int
  cg_milestones_count :: nat

text \<open>
  The loop of \<^verbatim>\<open>create_goal\<close> over \<^verbatim>\<open>enumerate(roadmap_list)\<close>, from index \<open>idx\<close> on.
  An entry that is not a dict has no \<^verbatim>\<open>get\<close>: the \<^verbatim>\<open>AttributeError\<close> ends the loop with
  the milestones added so far still pending. The result carries the session and, on
  success, the local list \<^verbatim>\<open>milestones\<close>.
\<close>

fun store_milestones ::
  "int \<Rightarrow> nat \<Rightarrow> json list \<Rightarrow> Milestone list \<Rightarrow> Session
     \<Rightarrow> Milestone list result \<times> Session" where
  "store_milestones goal_id idx [] ms db = (Ok ms, db)"
| "store_milestones goal_id idx (milestone_input # rest) ms db =
     (case milestone_input of
        JObj kvs \<Rightarrow>
          (let milestone =
                 \<lparr>m_id = next_id (map m_id (milestones (pending db))),
                  m_goal_id = goal_id,
                  m_title = dict_get kvs ''title'' (JStr (''Milestone '' @ str_nat (idx + 1))),
                  m_description = dict_get kvs ''description'' (JStr []),
                  m_order = int idx + 1,
                  m_is_complete = False,
                  m_completed_at = None\<rparr>
           in store_milestones goal_id (idx + 1) rest (ms @ [milestone])
                (add_milestone milestone db))
      | _ \<Rightarrow>
          (Error (quoted (type_name milestone_input) @ '' object has no attribute ''
                    @ quoted ''get''), db))"

definition create_goal ::
  "(string \<Rightarrow> json option) \<Rightarrow> database \<Rightarrow> int \<Rightarrow> string \<Rightarrow> int \<Rightarrow> json \<Rightarrow> json
     \<Rightarrow> create_goal_response result \<times> database" where
  "create_goal loads st user_id skill_name timeline roadmap coach_notes =
     (let db = get_db st in
      case first (filter (\<lambda>u. u_id u = user_id) (users (committed db))) of
        None \<Rightarrow> (Error ''User not found'', close db)
      | Some user \<Rightarrow>
          (case loads_if_str loads roadmap of
             None \<Rightarrow> (Error ''Invalid roadmap JSON format'', close db)
           | Some roadmap_list \<Rightarrow>
               (case (if truthy coach_notes then loads_if_str loads coach_notes
                      else Some JNull) of
                  None \<Rightarrow> (Error ''Invalid coach_notes JSON format'', close db)
                | Some coach_notes_dict \<Rightarrow>
                    (let goal = \<lparr>g_id = next_id (map g_id (goals (pending db))),
                                 g_user_id = user_id, g_skill_name = skill_name,
                                 g_timeline = timeline, g_coach_notes = coach_notes_dict\<rparr>;
                         db = add_goal goal db;
                         db = commit db
                     in case iterate roadmap_list of
                          Error e \<Rightarrow> (Error e, close (rollback db))
                        | Ok entries \<Rightarrow>
                            (case store_milestones (g_id goal) 0 entries [] db of
                               (Error e, db) \<Rightarrow> (Error e, close (rollback db))
                             | (Ok ms, db) \<Rightarrow>
                                 (let db = commit db in
                                  (Ok \<lparr>cg_goal_id = g_id goal,
                                       cg_confirmation =
                                         ''Goal '' @ quoted skill_name
                                           @ '' created successfully with ''
                                           @ str_nat (length ms) @ '' milestones'',
                                       cg_skill_name = g_skill_name goal,
                                       cg_timeline = g_timeline goal,
                                       cg_milestones_count = length ms\<rparr>,
                                   close db)))))))"

record task_summary =
  ts_task_id :: int
  ts_title :: string
  ts_description :: string
  ts_status :: TaskStatus
  ts_completed_at :: "timestamp option"

record milestone_summary =
  ms_milestone_id :: int
  ms_title :: json
  ms_description :: json
  ms_order :: int
  ms_is_complete :: bool

record context_response =
  cx_goal_id :: int
  cx_skill_name :: string
  cx_learning_style :: "string option"
  cx_last_completed_tasks :: "task_summary list"
  cx_current_incomplete_tasks :: "task_summary list"
  cx_roadmap :: "milestone_summary list"
  cx_coach_notes :: json

definition summary_of_task :: "Task \<Rightarrow> task_summary" where
  "summary_of_task t =
     \<lparr>ts_task_id = t_id t, ts_title = t_title t, ts_description = t_description t,
      ts_status = t_status t, ts_completed_at = t_completed_at t\<rparr>"

definition summary_of_milestone :: "Milestone \<Rightarrow> milestone_summary" where
  "summary_of_milestone m =
     \<lparr>ms_milestone_id = m_id m, ms_title = m_title m, ms_description = m_description m,
      ms_order = m_order m, ms_is_complete = m_is_complete m\<rparr>"

text \<open>The three queries of \<^verbatim>\<open>get_context\<close>.\<close>

definition last_completed :: "database \<Rightarrow> int \<Rightarrow> Task list" where
  "last_completed d goal_id =
     take 5 (order_by (desc t_completed_at)
       (filter (\<lambda>t. t_goal_id t = goal_id \<and> t_status t = COMPLETE) (tasks d)))"

definition current_incomplete :: "database \<Rightarrow> int \<Rightarrow> Task list" where
  "current_incomplete d goal_id =
     order_by (asc t_created_at)
       (filter (\<lambda>t. t_goal_id t = goal_id \<and> t_status t \<in> set [INCOMPLETE, IN_PROGRESS])
          (tasks d))"

definition roadmap_of :: "database \<Rightarrow> int \<Rightarrow> Milestone list" where
  "roadmap_of d goal_id =
     order_by (asc m_order) (filter (\<lambda>m. m_goal_id m = goal_id) (milestones d))"

definition get_context :: "database \<Rightarrow> int \<Rightarrow> context_response result \<times> database" where
  "get_context st goal_id =
     (let db = get_db st in
      case first (filter (\<lambda>g. g_id g = goal_id) (goals (committed db))) of
        None \<Rightarrow> (Error ''Goal not found'', close db)
      | Some goal \<Rightarrow>
          (let user = first (filter (\<lambda>u. u_id u = g_user_id goal) (users (committed db)))
           in (Ok \<lparr>cx_goal_id = g_id goal,
                   cx_skill_name = g_skill_name goal,
                   cx_learning_style =
                     (case user of Some u \<Rightarrow> u_learning_style u | None \<Rightarrow> None),
                   cx_last_completed_tasks =
                     map summary_of_task (last_completed (committed db) goal_id),
                   cx_current_incomplete_tasks =
                     map summary_of_task (current_incomplete (committed db) goal_id),
                   cx_roadmap =
                     map summary_of_milestone (roadmap_of (committed db) goal_id),
                   cx_coach_notes = g_coach_notes goal\<rparr>,
               close db)))"

record update_goal_response =
  ug_goal_id :: int
  ug_skill_name :: string
  ug_timeline :: int
  ug_coach_notes :: json
  ug_message :: string

definition update_goal ::
  "(string \<Rightarrow> json option) \<Rightarrow> database \<Rightarrow> int \<Rightarrow> string option \<Rightarrow> int option \<Rightarrow> json
     \<Rightarrow> update_goal_response result \<times> database" where
  "update_goal loads st goal_id skill_name timeline coach_notes =
     (let db = get_db st in
      case first (filter (\<lambda>g. g_id g = goal_id) (goals (committed db))) of
        None \<Rightarrow> (Error ''Goal not found'', close db)
      | Some goal \<Rightarrow>
          (let goal = (case skill_name of Some s \<Rightarrow> goal\<lparr>g_skill_name := s\<rparr> | None \<Rightarrow> goal);
               db = set_goal goal db;
               goal = (case timeline of Some n \<Rightarrow> goal\<lparr>g_timeline := n\<rparr> | None \<Rightarrow> goal);
               db = set_goal goal db
           in case (if coach_notes \<noteq> JNull
                    then (case loads_if_str loads coach_notes of
                            Some v \<Rightarrow> Some (goal\<lparr>g_coach_notes := v\<rparr>)
                          | None \<Rightarrow> None)
                    else Some goal) of
                None \<Rightarrow> (Error ''Invalid coach_notes JSON format'', close db)
              | Some goal \<Rightarrow>
                  (let db = set_goal goal db;
                       db = commit db
                   in (Ok \<lparr>ug_goal_id = g_id goal,
                           ug_skill_name = g_skill_name goal,
                           ug_timeline = g_timeline goal,
                           ug_coach_notes = g_coach_notes goal,
                           ug_message = ''Goal updated successfully''\<rparr>,
                       close db))))"

section \<open>Milestone and task tools\<close>

record update_milestone_response =
  um_milestone_id :: int
  um_title :: json
  um_description :: json
  um_order :: int
  um_is_complete :: bool
  um_message :: string

definition update_milestone ::
  "timestamp \<Rightarrow> database \<Rightarrow> int \<Rightarrow> string option \<Rightarrow> string option \<Rightarrow> bool option
     \<Rightarrow> update_milestone_response result \<times> database" where
  "update_milestone now st milestone_id title description is_complete =
     (let db = get_db st in
      case first (filter (\<lambda>m. m_id m = milestone_id) (milestones (committed db))) of
        None \<Rightarrow> (Error ''Milestone not found'', close db)
      | Some milestone \<Rightarrow>
          (let milestone =
                 (case title of Some s \<Rightarrow> milestone\<lparr>m_title := JStr s\<rparr> | None \<Rightarrow> milestone);
               milestone =
                 (case description of
                    Some s \<Rightarrow> milestone\<lparr>m_description := JStr s\<rparr>
                  | None \<Rightarrow> milestone);
               milestone =
                 (case is_complete of
                    Some b \<Rightarrow>
                      (if b then milestone\<lparr>m_is_complete := b, m_completed_at := Some now\<rparr>
                       else milestone\<lparr>m_is_complete := b, m_completed_at := None\<rparr>)
                  | None \<Rightarrow> milestone);
               db = set_milestone milestone db;
               db = commit db
           in (Ok \<lparr>um_milestone_id = m_id milestone,
                   um_title = m_title milestone,
                   um_description = m_description milestone,
                   um_order = m_order milestone,
                   um_is_complete = m_is_complete milestone,
                   um_message = ''Milestone updated successfully''\<rparr>,
               close db)))"

record create_task_response =
  ct_task_id :: int
  ct_task_title :: string
  ct_task_description :: string
  ct_verification_type :: string
  ct_verification_content :: json
  ct_milestone_id :: "int option"

text \<open>
  The dict \<^verbatim>\<open>verification_data\<close> that \<^verbatim>\<open>create_task\<close> builds, and the query for the
  milestone a new task goes to. \<^verbatim>\<open>json.dumps\<close> is the parameter \<open>dumps\<close>.
\<close>

definition verification_content :: "string \<Rightarrow> string \<Rightarrow> json" where
  "verification_content task_title task_description =
     JObj [(''prompt'', JStr (''Please complete the following task: '' @ task_title)),
           (''guidelines'', JStr task_description)]"

definition verification_requirements :: json where
  "verification_requirements =
     JObj [(''completion_criteria'',
            JStr ''Task should be completed according to the description'')]"

definition current_milestone :: "database \<Rightarrow> int \<Rightarrow> Milestone option" where
  "current_milestone d goal_id =
     first (order_by (asc m_order)
       (filter (\<lambda>m. m_goal_id m = goal_id \<and> m_is_complete m = False) (milestones d)))"

definition create_task ::
  "(json \<Rightarrow> string) \<Rightarrow> timestamp \<Rightarrow> database \<Rightarrow> int \<Rightarrow> string \<Rightarrow> string
     \<Rightarrow> create_task_response result \<times> database" where
  "create_task dumps now st goal_id task_title task_description =
     (let db = get_db st in
      case first (filter (\<lambda>g. g_id g = goal_id) (goals (committed db))) of
        None \<Rightarrow> (Error ''Goal not found'', close db)
      | Some goal \<Rightarrow>
          (let cur = current_milestone (committed db) goal_id;
               task = \<lparr>t_id = next_id (map t_id (tasks (pending db))),
                       t_goal_id = goal_id,
                       t_milestone_id = (case cur of Some m \<Rightarrow> Some (m_id m) | None \<Rightarrow> None),
                       t_title = task_title,
                       t_description = task_description,
                       t_status = INCOMPLETE,
                       t_created_at = now,
                       t_completed_at = None\<rparr>;
               db = add_task task db;
               db = commit db;
               verification =
                 \<lparr>v_id = next_id (map v_id (verifications (pending db))),
                  v_task_id = t_id task,
                  v_verification_type = TEXT,
                  v_content = dumps (verification_content task_title task_description),
                  v_requirements = dumps verification_requirements\<rparr>;
               db = add_verification verification db;
               db = commit db
           in (Ok \<lparr>ct_task_id = t_id task,
                   ct_task_title = t_title task,
                   ct_task_description = t_description task,
                   ct_verification_type =
                     VerificationType_value (v_verification_type verification),
                   ct_verification_content =
                     verification_content task_title task_description,
                   ct_milestone_id = (case cur of Some m \<Rightarrow> Some (m_id m) | None \<Rightarrow> None)\<rparr>,
               close db)))"

section \<open>Example stores\<close>

text \<open>Small databases on which the theorems below are run.\<close>

definition empty_db :: database where
  "empty_db = \<lparr>users = [], goals = [], milestones = [], tasks = [], verifications = []\<rparr>"

definition alice :: User where
  "alice = \<lparr>u_id = 1, u_username = ''alice'', u_email = ''alice@x.com'',
            u_learning_style = None, u_created_at = 7\<rparr>"

definition guitar :: Goal where
  "guitar = \<lparr>g_id = 1, g_user_id = 1, g_skill_name = ''Guitar'', g_timeline = 60,
             g_coach_notes = JNull\<rparr>"



definition orphan_goal :: database where
  "orphan_goal = \<lparr>users = [], goals = [guitar], milestones = [], tasks = [],
                  verifications = []\<rparr>"

text \<open>
  \<^verbatim>\<open>json.loads\<close> on the texts the examples use: \<^verbatim>\<open>[1]\<close> and \<^verbatim>\<open>{}\<close> parse, and
  \<^verbatim>\<open>{\<close> is no JSON text.
\<close>

definition loads_sample :: "string \<Rightarrow> json option" where
  "loads_sample s =
     (if s = ''[1]'' then Some (JArr [JInt 1])
      else if s = ''{}'' then Some (JObj [])
      else None)"

definition chords :: Milestone where
  "chords = \<lparr>m_id = 1, m_goal_id = 1, m_title = JStr ''Chords'', m_description = JStr [],
             m_order = 1, m_is_complete = False, m_completed_at = None\<rparr>"

definition songs :: Milestone where
  "songs = \<lparr>m_id = 2, m_goal_id = 1, m_title = JStr ''Songs'', m_description = JStr [],
            m_order = 2, m_is_complete = False, m_completed_at = None\<rparr>"

definition guitar_db :: database where
  "guitar_db = \<lparr>users = [alice], goals = [guitar], milestones = [chords, songs],
                tasks = [], verifications = []\<rparr>"

definition basics :: Milestone where
  "basics = \<lparr>m_id = 1, m_goal_id = 1, m_title = JStr ''Basics'', m_description = JStr [],
             m_order = 1, m_is_complete = True, m_completed_at = Some 5\<rparr>"

definition solos :: Milestone where
  "solos = \<lparr>m_id = 2, m_goal_id = 1, m_title = JStr ''Solos'', m_description = JStr [],
            m_order = 3, m_is_complete = False, m_completed_at = None\<rparr>"

definition riffs :: Milestone where
  "riffs = \<lparr>m_id = 3, m_goal_id = 1, m_title = JStr ''Riffs'', m_description = JStr [],
            m_order = 2, m_is_complete = False, m_completed_at = None\<rparr>"

definition three_steps :: database where
  "three_steps = \<lparr>users = [alice], goals = [guitar], milestones = [basics, solos, riffs],
                  tasks = [], verifications = []\<rparr>"

definition all_complete :: database where
  "all_complete = \<lparr>users = [alice], goals = [guitar], milestones = [basics],
                   tasks = [], verifications = []\<rparr>"


section \<open>Basic facts\<close>

lemma first_filter_None: "(first (filter P xs) = None) = (\<forall>x\<in>set xs. \<not> P x)"
  by (induction xs) (auto simp: first_def)

lemma first_filter_Some: "first (filter P xs) = Some x \<Longrightarrow> x \<in> set xs \<and> P x"
  by (induction xs) (auto simp: first_def split: if_splits)

lemma first_filter_ex: "\<exists>x\<in>set xs. P x \<Longrightarrow> \<exists>y. first (filter P xs) = Some y"
  by (cases "first (filter P xs)") (auto simp: first_filter_None)

lemma le_foldr_max: "i \<in> set ids \<Longrightarrow> i \<le> foldr max ids (0::int)"
  by (induction ids) auto

lemma next_id_fresh: "i \<in> set ids \<Longrightarrow> i < next_id ids"
  using le_foldr_max [of i ids] by (simp add: next_id_def)

subsection \<open>Sorting of query results\<close>

lemma mset_insert_row: "mset (insert_row le r xs) = add_mset r (mset xs)"
  by (induction xs) auto

lemma mset_order_by: "mset (order_by le xs) = mset xs"
  by (induction xs) (auto simp: order_by_def mset_insert_row)

lemma set_insert_row: "set (insert_row le r xs) = insert r (set xs)"
  by (induction xs) auto

lemma set_order_by: "set (order_by le xs) = set xs"
  by (induction xs) (auto simp: order_by_def set_insert_row)

lemma length_order_by: "length (order_by le xs) = length xs"
  using mset_order_by [of le xs] by (metis size_mset)

lemma sorted_insert_row:
  assumes total: "\<And>a b. le a b \<or> le b a"
    and trans: "\<And>a b c. le a b \<Longrightarrow> le b c \<Longrightarrow> le a c"
    and "sorted_wrt le xs"
  shows "sorted_wrt le (insert_row le r xs)"
  using assms(3)
proof (induction xs)
  case Nil
  then show ?case by simp
next
  case (Cons x xs)
  show ?case
  proof (cases "le r x")
    case True
    with Cons.prems trans show ?thesis by auto
  next
    case False
    then have "le x r" using total by blast
    with False Cons show ?thesis by (auto simp: set_insert_row)
  qed
qed

lemma sorted_order_by:
  assumes "\<And>a b. le a b \<or> le b a" and "\<And>a b c. le a b \<Longrightarrow> le b c \<Longrightarrow> le a c"
  shows "sorted_wrt le (order_by le xs)"
proof (induction xs)
  case Nil
  show ?case by (simp add: order_by_def)
next
  case (Cons x xs)
  have "order_by le (x # xs) = insert_row le x (order_by le xs)"
    by (simp add: order_by_def)
  with Cons sorted_insert_row [of le "order_by le xs" x] assms show ?case by metis
qed



text \<open>Rows with the same key leave a query in the order the table has them.\<close>

lemma filter_insert_row_asc:
  "filter (\<lambda>x. key x = k) (insert_row (asc key) r xs) =
     (if key r = k then r # filter (\<lambda>x. key x = k) xs else filter (\<lambda>x. key x = k) xs)"
  by (induction xs) (auto simp: asc_def)


lemma order_by_asc_stable:
  "filter (\<lambda>x. key x = k) (order_by (asc key) xs) = filter (\<lambda>x. key x = k) xs"
  by (induction xs) (auto simp: order_by_def filter_insert_row_asc)



section \<open>create_user\<close>

text \<open>
  Claim C8. \<^verbatim>\<open>create_user\<close> answers with the conflict error exactly when some user of the
  store has the given username or the given email (compared as they are, character by
  character), and then the store is the one before the call. In every other case it
  succeeds: the store gains one user with the given fields, the clock's time as
  \<open>created_at\<close> and an id that no user of the store had, and the answer is that user's
  projection with the id and \<open>created_at\<close>.
\<close>

theorem create_user_conflict:
  "create_user now st username email learning_style =
     (if \<exists>u\<in>set (users st). u_username u = username \<or> u_email u = email
      then (Error ''Username or email already exists'', st)
      else (Ok \<lparr>r_user_id = next_id (map u_id (users st)), r_username = username,
                r_email = email, r_learning_style = learning_style, r_created_at = now\<rparr>,
            st\<lparr>users := users st @
                 [\<lparr>u_id = next_id (map u_id (users st)), u_username = username,
                   u_email = email, u_learning_style = learning_style,
                   u_created_at = now\<rparr>]\<rparr>))
   \<and> (\<forall>u\<in>set (users st). u_id u \<noteq> next_id (map u_id (users st)))"
proof -
  let ?P = "\<lambda>u. u_username u = username \<or> u_email u = email"
  have fresh: "\<forall>u\<in>set (users st). u_id u \<noteq> next_id (map u_id (users st))"
  proof
    fix u assume "u \<in> set (users st)"
    then have "u_id u \<in> set (map u_id (users st))" by simp
    from next_id_fresh [OF this] show "u_id u \<noteq> next_id (map u_id (users st))" by simp
  qed
  have main: "create_user now st username email learning_style =
     (if \<exists>u\<in>set (users st). ?P u
      then (Error ''Username or email already exists'', st)
      else (Ok \<lparr>r_user_id = next_id (map u_id (users st)), r_username = username,
                r_email = email, r_learning_style = learning_style, r_created_at = now\<rparr>,
            st\<lparr>users := users st @
                 [\<lparr>u_id = next_id (map u_id (users st)), u_username = username,
                   u_email = email, u_learning_style = learning_style,
                   u_created_at = now\<rparr>]\<rparr>))"
  proof (cases "first (filter ?P (users st))")
    case None
    then have "\<not> (\<exists>u\<in>set (users st). ?P u)" by (simp add: first_filter_None)
    with None show ?thesis
      by (simp add: create_user_def get_db_def close_def commit_def add_user_def
          user_projection_def)
  next
    case (Some u)
    then have "\<exists>u\<in>set (users st). ?P u" using first_filter_Some [OF Some] by blast
    with Some show ?thesis
      by (simp add: create_user_def get_db_def close_def)
  qed
  from main fresh show ?thesis by blast
qed

theorem create_user_conflict_witness:
  "create_user 7 empty_db ''alice'' ''alice@x.com'' None =
     (Ok \<lparr>r_user_id = 1, r_username = ''alice'', r_email = ''alice@x.com'',
          r_learning_style = None, r_created_at = 7\<rparr>,
      empty_db\<lparr>users := [alice]\<rparr>)
   \<and> create_user 9 (empty_db\<lparr>users := [alice]\<rparr>) ''bob'' ''alice@x.com'' None =
     (Error ''Username or email already exists'', empty_db\<lparr>users := [alice]\<rparr>)"
  using create_user_conflict [of 7 empty_db "''alice''" "''alice@x.com''" None]
    create_user_conflict [of 9 "empty_db\<lparr>users := [alice]\<rparr>" "''bob''" "''alice@x.com''" None]
  by (simp add: empty_db_def alice_def next_id_def)

section \<open>get_context\<close>

lemma get_context_result:
  assumes "first (filter (\<lambda>g. g_id g = goal_id) (goals st)) = Some goal"
  shows "get_context st goal_id =
     (Ok \<lparr>cx_goal_id = g_id goal, cx_skill_name = g_skill_name goal,
          cx_learning_style =
            (case first (filter (\<lambda>u. u_id u = g_user_id goal) (users st)) of
               Some u \<Rightarrow> u_learning_style u | None \<Rightarrow> None),
          cx_last_completed_tasks = map summary_of_task (last_completed st goal_id),
          cx_current_incomplete_tasks = map summary_of_task (current_incomplete st goal_id),
          cx_roadmap = map summary_of_milestone (roadmap_of st goal_id),
          cx_coach_notes = g_coach_notes goal\<rparr>, st)"
  using assms by (simp add: get_context_def get_db_def close_def Let_def)



lemma order_by_Nil: "order_by le [] = []"
  by (simp add: order_by_def)

lemma filter_none: "\<forall>x\<in>set xs. \<not> P x \<Longrightarrow> filter P xs = []"
  by (induction xs) auto



text \<open>
  Claim C6. \<^verbatim>\<open>get_context\<close> leaves the store as it was. On a goal of the store it
  succeeds: without tasks of the goal both task lists are empty, without milestones of the
  goal the roadmap is empty, and when no user has the goal's \<open>user_id\<close> the learning
  style is null.
\<close>

theorem get_context_pure:
  "snd (get_context st goal_id) = st
   \<and> (\<forall>goal. first (filter (\<lambda>g. g_id g = goal_id) (goals st)) = Some goal \<longrightarrow>
        (\<exists>r. fst (get_context st goal_id) = Ok r
           \<and> ((\<forall>t\<in>set (tasks st). t_goal_id t \<noteq> goal_id) \<longrightarrow>
                cx_last_completed_tasks r = [] \<and> cx_current_incomplete_tasks r = [])
           \<and> ((\<forall>m\<in>set (milestones st). m_goal_id m \<noteq> goal_id) \<longrightarrow> cx_roadmap r = [])
           \<and> ((\<forall>u\<in>set (users st). u_id u \<noteq> g_user_id goal) \<longrightarrow>
                cx_learning_style r = None)))"
proof (intro conjI allI impI)
  show "snd (get_context st goal_id) = st"
    by (simp add: get_context_def get_db_def close_def Let_def split: option.splits)
next
  fix goal
  assume goal: "first (filter (\<lambda>g. g_id g = goal_id) (goals st)) = Some goal"
  let ?r = "\<lparr>cx_goal_id = g_id goal, cx_skill_name = g_skill_name goal,
          cx_learning_style =
            (case first (filter (\<lambda>u. u_id u = g_user_id goal) (users st)) of
               Some u \<Rightarrow> u_learning_style u | None \<Rightarrow> None),
          cx_last_completed_tasks = map summary_of_task (last_completed st goal_id),
          cx_current_incomplete_tasks = map summary_of_task (current_incomplete st goal_id),
          cx_roadmap = map summary_of_milestone (roadmap_of st goal_id),
          cx_coach_notes = g_coach_notes goal\<rparr>"
  have r: "fst (get_context st goal_id) = Ok ?r"
    using get_context_result [OF goal] by simp
  have tasks: "cx_last_completed_tasks ?r = [] \<and> cx_current_incomplete_tasks ?r = []"
    if "\<forall>t\<in>set (tasks st). t_goal_id t \<noteq> goal_id"
  proof -
    from that have "filter (\<lambda>t. t_goal_id t = goal_id \<and> t_status t = COMPLETE) (tasks st) = []"
      by (intro filter_none) simp
    moreover from that
    have "filter (\<lambda>t. t_goal_id t = goal_id \<and> t_status t \<in> set [INCOMPLETE, IN_PROGRESS])
            (tasks st) = []"
      by (intro filter_none) simp
    ultimately show ?thesis
      by (simp add: last_completed_def current_incomplete_def order_by_Nil)
  qed
  have roadmap: "cx_roadmap ?r = []" if "\<forall>m\<in>set (milestones st). m_goal_id m \<noteq> goal_id"
  proof -
    from that have "filter (\<lambda>m. m_goal_id m = goal_id) (milestones st) = []"
      by (intro filter_none) simp
    then show ?thesis by (simp add: roadmap_of_def order_by_Nil)
  qed
  have style: "cx_learning_style ?r = None" if "\<forall>u\<in>set (users st). u_id u \<noteq> g_user_id goal"
  proof -
    from that have "first (filter (\<lambda>u. u_id u = g_user_id goal) (users st)) = None"
      unfolding first_filter_None by blast
    then show ?thesis by simp
  qed
  from r tasks roadmap style
  show "\<exists>r. fst (get_context st goal_id) = Ok r
           \<and> ((\<forall>t\<in>set (tasks st). t_goal_id t \<noteq> goal_id) \<longrightarrow>
                cx_last_completed_tasks r = [] \<and> cx_current_incomplete_tasks r = [])
           \<and> ((\<forall>m\<in>set (milestones st). m_goal_id m \<noteq> goal_id) \<longrightarrow> cx_roadmap r = [])
           \<and> ((\<forall>u\<in>set (users st). u_id u \<noteq> g_user_id goal) \<longrightarrow>
                cx_learning_style r = None)"
    by (intro exI [of _ ?r]) blast
qed

theorem get_context_pure_witness:
  "first (filter (\<lambda>g. g_id g = 1) (goals orphan_goal)) = Some guitar
   \<and> tasks orphan_goal = [] \<and> milestones orphan_goal = [] \<and> users orphan_goal = []
   \<and> get_context orphan_goal 1 =
       (Ok \<lparr>cx_goal_id = 1, cx_skill_name = ''Guitar'', cx_learning_style = None,
            cx_last_completed_tasks = [], cx_current_incomplete_tasks = [],
            cx_roadmap = [], cx_coach_notes = JNull\<rparr>, orphan_goal)"
proof -
  have h: "first (filter (\<lambda>g. g_id g = 1) (goals orphan_goal)) = Some guitar"
    by (simp add: orphan_goal_def guitar_def first_def)
  have e: "(\<forall>t\<in>set (tasks orphan_goal). t_goal_id t \<noteq> 1)
     \<and> (\<forall>m\<in>set (milestones orphan_goal). m_goal_id m \<noteq> 1)
     \<and> (\<forall>u\<in>set (users orphan_goal). u_id u \<noteq> g_user_id guitar)"
    by (simp add: orphan_goal_def)
  from get_context_pure [of orphan_goal 1] h e
  obtain r where r: "fst (get_context orphan_goal 1) = Ok r"
    and "cx_last_completed_tasks r = []" "cx_current_incomplete_tasks r = []"
      "cx_roadmap r = []" "cx_learning_style r = None"
      and s: "snd (get_context orphan_goal 1) = orphan_goal"
    by blast
  moreover have "fst (get_context orphan_goal 1) =
     Ok \<lparr>cx_goal_id = 1, cx_skill_name = ''Guitar'', cx_learning_style = None,
            cx_last_completed_tasks = [], cx_current_incomplete_tasks = [],
            cx_roadmap = [], cx_coach_notes = JNull\<rparr>"
    by (simp add: get_context_def get_db_def close_def Let_def first_def orphan_goal_def
        guitar_def last_completed_def current_incomplete_def roadmap_of_def order_by_def)
  ultimately have "get_context orphan_goal 1 =
       (Ok \<lparr>cx_goal_id = 1, cx_skill_name = ''Guitar'', cx_learning_style = None,
            cx_last_completed_tasks = [], cx_current_incomplete_tasks = [],
            cx_roadmap = [], cx_coach_notes = JNull\<rparr>, orphan_goal)"
    by (simp add: prod_eq_iff)
  moreover have "tasks orphan_goal = [] \<and> milestones orphan_goal = [] \<and> users orphan_goal = []"
    by (simp add: orphan_goal_def)
  ultimately show ?thesis using h by blast
qed

section \<open>update_goal and update_milestone\<close>

lemma first_filter_replaced:
  assumes "key new = i" and "\<exists>x\<in>set xs. key x = i"
  shows "first (filter (\<lambda>x. key x = i) (map (\<lambda>r. if key r = i then new else r) xs)) = Some new"
  using assms(2)
proof (induction xs)
  case Nil
  then show ?case by simp
next
  case (Cons x xs)
  show ?case
  proof (cases "key x = i")
    case True
    with assms(1) show ?thesis by (simp add: first_def)
  next
    case False
    with Cons have "first (filter (\<lambda>x. key x = i) (map (\<lambda>r. if key r = i then new else r) xs)) = Some new"
      by auto
    with False show ?thesis by simp
  qed
qed

lemma update_goal_result:
  assumes "first (filter (\<lambda>g. g_id g = goal_id) (goals st)) = Some goal"
  shows "update_goal loads st goal_id skill_name timeline coach_notes =
     (case (if coach_notes \<noteq> JNull then loads_if_str loads coach_notes
            else Some (g_coach_notes goal)) of
        None \<Rightarrow> (Error ''Invalid coach_notes JSON format'', st)
      | Some parsed \<Rightarrow>
          (Ok \<lparr>ug_goal_id = goal_id,
               ug_skill_name = (case skill_name of Some s \<Rightarrow> s | None \<Rightarrow> g_skill_name goal),
               ug_timeline = (case timeline of Some n \<Rightarrow> n | None \<Rightarrow> g_timeline goal),
               ug_coach_notes = parsed,
               ug_message = ''Goal updated successfully''\<rparr>,
           st\<lparr>goals := map (\<lambda>r. if g_id r = goal_id
                 then goal\<lparr>g_skill_name :=
                             (case skill_name of Some s \<Rightarrow> s | None \<Rightarrow> g_skill_name goal),
                           g_timeline :=
                             (case timeline of Some n \<Rightarrow> n | None \<Rightarrow> g_timeline goal),
                           g_coach_notes := parsed\<rparr>
                 else r) (goals st)\<rparr>))"
proof -
  from first_filter_Some [OF assms] have id: "g_id goal = goal_id" by simp
  show ?thesis
    using assms id
    by (cases skill_name; cases timeline)
      (auto simp: update_goal_def get_db_def close_def commit_def set_goal_def Let_def
        split: option.splits)
qed

lemma update_milestone_result:
  assumes "first (filter (\<lambda>m. m_id m = milestone_id) (milestones st)) = Some m"
  shows "update_milestone now st milestone_id title description is_complete =
     (let m' = m\<lparr>m_title := (case title of Some s \<Rightarrow> JStr s | None \<Rightarrow> m_title m),
                 m_description :=
                   (case description of Some s \<Rightarrow> JStr s | None \<Rightarrow> m_description m),
                 m_is_complete := (case is_complete of Some b \<Rightarrow> b | None \<Rightarrow> m_is_complete m),
                 m_completed_at :=
                   (case is_complete of
                      Some b \<Rightarrow> (if b then Some now else None)
                    | None \<Rightarrow> m_completed_at m)\<rparr>
      in (Ok \<lparr>um_milestone_id = milestone_id, um_title = m_title m',
              um_description = m_description m', um_order = m_order m,
              um_is_complete = m_is_complete m',
              um_message = ''Milestone updated successfully''\<rparr>,
          st\<lparr>milestones := map (\<lambda>r. if m_id r = milestone_id then m' else r)
                               (milestones st)\<rparr>))"
proof -
  from first_filter_Some [OF assms] have id: "m_id m = milestone_id" by simp
  show ?thesis
    using assms id
    by (cases title; cases description; cases is_complete)
      (auto simp: update_milestone_def get_db_def close_def commit_def set_milestone_def Let_def)
qed

text \<open>
  Claim C7. On a milestone of the store, \<^verbatim>\<open>update_milestone\<close> with \<open>is_complete\<close>
  supplied succeeds, whatever the milestone's state before: supplied as true, the
  milestone is complete and its \<open>completed_at\<close> is the current time; supplied as false,
  the milestone is incomplete and its \<open>completed_at\<close> is null.
\<close>

theorem update_milestone_completed_at:
  assumes "\<exists>m\<in>set (milestones st). m_id m = milestone_id"
  shows "\<exists>r st'. update_milestone now st milestone_id title description (Some b) = (Ok r, st')
     \<and> um_is_complete r = b
     \<and> (\<exists>m'. first (filter (\<lambda>m. m_id m = milestone_id) (milestones st')) = Some m'
             \<and> m_is_complete m' = b
             \<and> m_completed_at m' = (if b then Some now else None))
     \<and> (\<forall>m'\<in>set (milestones st'). m_id m' = milestone_id \<longrightarrow>
            m_is_complete m' = b \<and> m_completed_at m' = (if b then Some now else None))"
proof -
  from first_filter_ex [OF assms] obtain m
    where m: "first (filter (\<lambda>m. m_id m = milestone_id) (milestones st)) = Some m" by blast
  from first_filter_Some [OF m] have id: "m_id m = milestone_id" by simp
  define m' where "m' = m\<lparr>m_title := (case title of Some s \<Rightarrow> JStr s | None \<Rightarrow> m_title m),
                 m_description :=
                   (case description of Some s \<Rightarrow> JStr s | None \<Rightarrow> m_description m),
                 m_is_complete := b,
                 m_completed_at := (if b then Some now else None)\<rparr>"
  define st' where "st' = st\<lparr>milestones := map (\<lambda>r. if m_id r = milestone_id then m' else r)
                               (milestones st)\<rparr>"
  define r where "r = \<lparr>um_milestone_id = milestone_id, um_title = m_title m',
              um_description = m_description m', um_order = m_order m,
              um_is_complete = m_is_complete m',
              um_message = ''Milestone updated successfully''\<rparr>"
  have call: "update_milestone now st milestone_id title description (Some b) = (Ok r, st')"
    using update_milestone_result [OF m, of now title description "Some b"]
    by (simp add: Let_def m'_def st'_def r_def)
  have id': "m_id m' = milestone_id" by (simp add: m'_def id)
  have found: "first (filter (\<lambda>m. m_id m = milestone_id) (milestones st')) = Some m'"
    unfolding st'_def using first_filter_replaced [of m_id m' milestone_id "milestones st"] id' assms
    by simp
  have all: "\<forall>x\<in>set (milestones st'). m_id x = milestone_id \<longrightarrow>
            m_is_complete x = b \<and> m_completed_at x = (if b then Some now else None)"
    by (auto simp: st'_def m'_def)
  have "um_is_complete r = b" "m_is_complete m' = b"
    "m_completed_at m' = (if b then Some now else None)"
    by (simp_all add: r_def m'_def)
  with call found all show ?thesis by blast
qed

theorem update_milestone_completed_at_witness:
  "(\<exists>m\<in>set (milestones guitar_db). m_id m = 1)
   \<and> map m_completed_at
        (milestones (snd (update_milestone 42 guitar_db 1 None None (Some True))))
       = [Some 42, None]
   \<and> map m_completed_at
        (milestones (snd (update_milestone 50
           (snd (update_milestone 42 guitar_db 1 None None (Some True))) 1 None None
           (Some False))))
       = [None, None]"
proof -
  have h: "\<exists>m\<in>set (milestones guitar_db). m_id m = 1"
    by (simp add: guitar_db_def chords_def)
  from update_milestone_completed_at [OF h, of 42 None None True]
  obtain r st' where call: "update_milestone 42 guitar_db 1 None None (Some True) = (Ok r, st')"
    by blast
  have e1: "snd (update_milestone 42 guitar_db 1 None None (Some True)) =
     guitar_db\<lparr>milestones := [chords\<lparr>m_is_complete := True, m_completed_at := Some 42\<rparr>, songs]\<rparr>"
    by (simp add: update_milestone_def get_db_def close_def commit_def set_milestone_def
        Let_def first_def guitar_db_def chords_def songs_def)
  have e2: "snd (update_milestone 50
       (guitar_db\<lparr>milestones := [chords\<lparr>m_is_complete := True, m_completed_at := Some 42\<rparr>, songs]\<rparr>)
       1 None None (Some False)) = guitar_db"
    by (simp add: update_milestone_def get_db_def close_def commit_def set_milestone_def
        Let_def first_def guitar_db_def chords_def songs_def)
  from call h e1 e2 show ?thesis
    by (simp add: guitar_db_def chords_def songs_def)
qed




text \<open>
  Claim C10. On a goal of the store, \<^verbatim>\<open>update_goal\<close> with a \<open>coach_notes\<close> string that
  does not parse answers with the error and leaves the store as it was, whatever
  \<open>skill_name\<close> and \<open>timeline\<close> were supplied with it: the assignments made before
  the parse die with the session, which is closed without a commit.
\<close>

theorem update_goal_bad_notes:
  assumes "\<exists>g\<in>set (goals st). g_id g = goal_id" and "loads s = None"
  shows "update_goal loads st goal_id skill_name timeline (JStr s) =
           (Error ''Invalid coach_notes JSON format'', st)"
proof -
  from first_filter_ex [OF assms(1)] obtain goal
    where goal: "first (filter (\<lambda>g. g_id g = goal_id) (goals st)) = Some goal" by blast
  from update_goal_result [OF goal, of loads skill_name timeline "JStr s"] assms(2)
  show ?thesis by (simp add: loads_if_str_def)
qed

theorem update_goal_bad_notes_witness:
  "(\<exists>g\<in>set (goals guitar_db). g_id g = 1) \<and> loads_sample ''{'' = None
   \<and> update_goal loads_sample guitar_db 1 (Some ''Piano'') (Some 45) (JStr ''{'') =
       (Error ''Invalid coach_notes JSON format'', guitar_db)
   \<and> map g_skill_name (goals guitar_db) = [''Guitar'']
   \<and> map g_timeline (goals guitar_db) = [60]"
proof -
  have h: "\<exists>g\<in>set (goals guitar_db). g_id g = 1" by (simp add: guitar_db_def guitar_def)
  have l: "loads_sample ''{'' = None" by (simp add: loads_sample_def)
  from update_goal_bad_notes [where loads = loads_sample and s = "''{''" and st = guitar_db
      and goal_id = 1 and skill_name = "Some ''Piano''" and timeline = "Some 45", OF h l] h l
  show ?thesis by (simp add: guitar_db_def guitar_def)
qed

section \<open>create_task\<close>

lemma first_order_by_None: "(first (order_by le xs) = None) = (xs = [])"
proof -
  have "(order_by le xs = []) = (xs = [])"
    using length_order_by [of le xs] by (metis length_0_conv)
  then show ?thesis by (cases "order_by le xs") (auto simp: first_def)
qed

lemma first_order_by_Some:
  assumes total: "\<And>a b. le a b \<or> le b a" and trans: "\<And>a b c. le a b \<Longrightarrow> le b c \<Longrightarrow> le a c"
    and "first (order_by le xs) = Some m"
  shows "m \<in> set xs \<and> (\<forall>x\<in>set xs. le m x)"
proof -
  from assms(3) obtain rest where eq: "order_by le xs = m # rest"
    by (cases "order_by le xs") (auto simp: first_def)
  have "sorted_wrt le (order_by le xs)" by (rule sorted_order_by) (fact total, fact trans)
  with eq have "\<forall>x\<in>set rest. le m x" by simp
  moreover have "le m m" using total by blast
  ultimately have "\<forall>x\<in>set (m # rest). le m x" by simp
  moreover have "set (m # rest) = set xs" using set_order_by [of le xs] eq by simp
  ultimately show ?thesis by auto
qed

lemma current_milestone_None:
  "(current_milestone st goal_id = None) =
     (\<forall>m\<in>set (milestones st). m_goal_id m = goal_id \<longrightarrow> m_is_complete m)"
  by (auto simp: current_milestone_def first_order_by_None filter_empty_conv)

lemma current_milestone_Some:
  assumes "current_milestone st goal_id = Some m"
  shows "m \<in> set (milestones st) \<and> m_goal_id m = goal_id \<and> \<not> m_is_complete m
     \<and> (\<forall>x\<in>set (milestones st). m_goal_id x = goal_id \<and> \<not> m_is_complete x \<longrightarrow>
            m_order m \<le> m_order x)"
proof -
  let ?xs = "filter (\<lambda>m. m_goal_id m = goal_id \<and> m_is_complete m = False) (milestones st)"
  have "first (order_by (asc m_order) ?xs) = Some m"
    using assms by (simp add: current_milestone_def)
  moreover have "\<And>a b. asc m_order a b \<or> asc m_order b (a::Milestone)"
    by (auto simp: asc_def)
  moreover have "\<And>a b c. asc m_order a b \<Longrightarrow> asc m_order b c \<Longrightarrow> asc m_order a (c::Milestone)"
    by (auto simp: asc_def)
  ultimately have "m \<in> set ?xs \<and> (\<forall>x\<in>set ?xs. asc m_order m x)"
    using first_order_by_Some [where le = "asc m_order" and xs = ?xs and m = m] by blast
  then show ?thesis by (auto simp: asc_def)
qed

lemma create_task_result:
  assumes "first (filter (\<lambda>g. g_id g = goal_id) (goals st)) = Some goal"
  shows "create_task dumps now st goal_id task_title task_description =
     (Ok \<lparr>ct_task_id = next_id (map t_id (tasks st)),
          ct_task_title = task_title,
          ct_task_description = task_description,
          ct_verification_type = ''text'',
          ct_verification_content = verification_content task_title task_description,
          ct_milestone_id = map_option m_id (current_milestone st goal_id)\<rparr>,
      st\<lparr>tasks := tasks st @
             [\<lparr>t_id = next_id (map t_id (tasks st)), t_goal_id = goal_id,
               t_milestone_id = map_option m_id (current_milestone st goal_id),
               t_title = task_title, t_description = task_description,
               t_status = INCOMPLETE, t_created_at = now, t_completed_at = None\<rparr>],
         verifications := verifications st @
             [\<lparr>v_id = next_id (map v_id (verifications st)),
               v_task_id = next_id (map t_id (tasks st)),
               v_verification_type = TEXT,
               v_content = dumps (verification_content task_title task_description),
               v_requirements = dumps verification_requirements\<rparr>]\<rparr>)"
  using assms
  by (cases "current_milestone st goal_id")
    (simp_all add: create_task_def get_db_def close_def commit_def add_task_def
      add_verification_def Let_def)

text \<open>
  Claim C3. \<^verbatim>\<open>create_task\<close> on a goal of the store succeeds and adds one task, with the
  given title and description and status \<open>INCOMPLETE\<close>. The task's \<open>milestone_id\<close>
  is the one the answer reports: the id of an incomplete milestone of the goal whose
  \<open>order\<close> is the smallest among the goal's incomplete milestones, or null when every
  milestone of the goal is complete.
\<close>

theorem create_task_milestone:
  assumes "\<exists>g\<in>set (goals st). g_id g = goal_id"
  shows "\<exists>r t st'.
      create_task dumps now st goal_id task_title task_description = (Ok r, st')
    \<and> tasks st' = tasks st @ [t]
    \<and> t_id t = ct_task_id r \<and> t_goal_id t = goal_id
    \<and> t_title t = task_title \<and> t_description t = task_description
    \<and> t_status t = INCOMPLETE
    \<and> t_milestone_id t = ct_milestone_id r
    \<and> (case ct_milestone_id r of
          None \<Rightarrow> \<forall>m\<in>set (milestones st). m_goal_id m = goal_id \<longrightarrow> m_is_complete m
        | Some i \<Rightarrow>
            \<exists>m\<in>set (milestones st). m_id m = i \<and> m_goal_id m = goal_id \<and> \<not> m_is_complete m
              \<and> (\<forall>x\<in>set (milestones st). m_goal_id x = goal_id \<and> \<not> m_is_complete x \<longrightarrow>
                     m_order m \<le> m_order x))"
proof -
  from first_filter_ex [OF assms] obtain goal
    where goal: "first (filter (\<lambda>g. g_id g = goal_id) (goals st)) = Some goal" by blast
  let ?cur = "current_milestone st goal_id"
  let ?t = "\<lparr>t_id = next_id (map t_id (tasks st)), t_goal_id = goal_id,
               t_milestone_id = map_option m_id ?cur,
               t_title = task_title, t_description = task_description,
               t_status = INCOMPLETE, t_created_at = now, t_completed_at = None\<rparr>"
  have pol: "(case map_option m_id ?cur of
          None \<Rightarrow> \<forall>m\<in>set (milestones st). m_goal_id m = goal_id \<longrightarrow> m_is_complete m
        | Some i \<Rightarrow>
            \<exists>m\<in>set (milestones st). m_id m = i \<and> m_goal_id m = goal_id \<and> \<not> m_is_complete m
              \<and> (\<forall>x\<in>set (milestones st). m_goal_id x = goal_id \<and> \<not> m_is_complete x \<longrightarrow>
                     m_order m \<le> m_order x))"
  proof (cases ?cur)
    case None
    then show ?thesis using current_milestone_None [of st goal_id] by simp
  next
    case (Some m)
    from current_milestone_Some [OF Some] Some show ?thesis by auto
  qed
  define r where "r = \<lparr>ct_task_id = next_id (map t_id (tasks st)),
          ct_task_title = task_title,
          ct_task_description = task_description,
          ct_verification_type = ''text'',
          ct_verification_content = verification_content task_title task_description,
          ct_milestone_id = map_option m_id ?cur\<rparr>"
  obtain st' where call:
    "create_task dumps now st goal_id task_title task_description = (Ok r, st')"
    and tasks: "tasks st' = tasks st @ [?t]"
    using create_task_result [OF goal, of dumps now task_title task_description]
    by (simp add: r_def)
  have fields: "t_id ?t = ct_task_id r" "t_goal_id ?t = goal_id" "t_title ?t = task_title"
    "t_description ?t = task_description" "t_status ?t = INCOMPLETE"
    "t_milestone_id ?t = ct_milestone_id r"
    by (simp_all add: r_def)
  have mid: "ct_milestone_id r = map_option m_id ?cur" by (simp add: r_def)
  from call tasks fields pol [folded mid] show ?thesis by blast
qed

theorem create_task_milestone_witness:
  "(\<exists>g\<in>set (goals three_steps). g_id g = 1)
   \<and> (\<exists>g\<in>set (goals all_complete). g_id g = 1)
   \<and> (\<forall>dumps.
        (\<exists>r st'. create_task dumps 9 three_steps 1 ''Learn Em'' ''Practice E minor'' = (Ok r, st')
           \<and> ct_milestone_id r = Some 3
           \<and> map t_milestone_id (tasks st') = [Some 3]
           \<and> map t_status (tasks st') = [INCOMPLETE])
      \<and> (\<exists>r st'. create_task dumps 9 all_complete 1 ''Learn Em'' ''Practice E minor'' = (Ok r, st')
           \<and> ct_milestone_id r = None
           \<and> map t_milestone_id (tasks st') = [None]
           \<and> map t_status (tasks st') = [INCOMPLETE]))"
proof -
  have h1: "\<exists>g\<in>set (goals three_steps). g_id g = 1"
    by (simp add: three_steps_def guitar_def)
  have h2: "\<exists>g\<in>set (goals all_complete). g_id g = 1"
    by (simp add: all_complete_def guitar_def)
  have c1: "current_milestone three_steps 1 = Some riffs"
    by (simp add: current_milestone_def first_def order_by_def asc_def three_steps_def
        basics_def solos_def riffs_def)
  have c2: "current_milestone all_complete 1 = None"
    by (simp add: current_milestone_def first_def order_by_def asc_def all_complete_def
        basics_def)
  have m1: "\<not> (\<forall>m\<in>set (milestones three_steps). m_goal_id m = 1 \<longrightarrow> m_is_complete m)"
    by (simp add: three_steps_def solos_def)
  have a: "\<exists>r st'. create_task dumps 9 three_steps 1 ''Learn Em'' ''Practice E minor'' = (Ok r, st')
           \<and> ct_milestone_id r = Some 3
           \<and> map t_milestone_id (tasks st') = [Some 3]
           \<and> map t_status (tasks st') = [INCOMPLETE]" for dumps
  proof -
    from create_task_milestone [OF h1, of dumps 9 "''Learn Em''" "''Practice E minor''"]
    obtain r t st' where
      call: "create_task dumps 9 three_steps 1 ''Learn Em'' ''Practice E minor'' = (Ok r, st')"
      and t: "tasks st' = tasks three_steps @ [t]" "t_status t = INCOMPLETE"
        "t_milestone_id t = ct_milestone_id r"
      by blast
    have "fst (create_task dumps 9 three_steps 1 ''Learn Em'' ''Practice E minor'') =
      Ok \<lparr>ct_task_id = 1, ct_task_title = ''Learn Em'',
          ct_task_description = ''Practice E minor'', ct_verification_type = ''text'',
          ct_verification_content = verification_content ''Learn Em'' ''Practice E minor'',
          ct_milestone_id = Some 3\<rparr>"
      using c1
      by (simp add: create_task_def get_db_def close_def commit_def add_task_def
          add_verification_def Let_def first_def three_steps_def guitar_def riffs_def
          next_id_def)
    with call have "ct_milestone_id r = Some 3" by auto
    with call t show ?thesis by (simp add: three_steps_def)
  qed
  have b: "\<exists>r st'. create_task dumps 9 all_complete 1 ''Learn Em'' ''Practice E minor'' = (Ok r, st')
           \<and> ct_milestone_id r = None
           \<and> map t_milestone_id (tasks st') = [None]
           \<and> map t_status (tasks st') = [INCOMPLETE]" for dumps
  proof -
    from create_task_milestone [OF h2, of dumps 9 "''Learn Em''" "''Practice E minor''"]
    obtain r t st' where
      call: "create_task dumps 9 all_complete 1 ''Learn Em'' ''Practice E minor'' = (Ok r, st')"
      and t: "tasks st' = tasks all_complete @ [t]" "t_status t = INCOMPLETE"
        "t_milestone_id t = ct_milestone_id r"
      by blast
    have "fst (create_task dumps 9 all_complete 1 ''Learn Em'' ''Practice E minor'') =
      Ok \<lparr>ct_task_id = 1, ct_task_title = ''Learn Em'',
          ct_task_description = ''Practice E minor'', ct_verification_type = ''text'',
          ct_verification_content = verification_content ''Learn Em'' ''Practice E minor'',
          ct_milestone_id = None\<rparr>"
      using c2
      by (simp add: create_task_def get_db_def close_def commit_def add_task_def
          add_verification_def Let_def first_def all_complete_def guitar_def next_id_def)
    with call have "ct_milestone_id r = None" by auto
    with call t show ?thesis by (simp add: all_complete_def)
  qed
  from h1 h2 a b show ?thesis by blast
qed

text \<open>
  Claim C4. \<^verbatim>\<open>create_task\<close> on a goal of the store adds exactly one verification, for
  the task it has just created (whose id no earlier task has): its type is \<^verbatim>\<open>"text"\<close>,
  its content is the serialised dict of the prompt
  \<^verbatim>\<open>"Please complete the following task: {task_title}"\<close> and the guidelines
  \<^verbatim>\<open>task_description\<close>, and its requirements are the serialised completion criteria.
  The answer carries the same content. A second call with the same title and description,
  on any store, goal and time, makes a verification of the same type, content and
  requirements.
\<close>

theorem create_task_verification:
  assumes "\<exists>g\<in>set (goals st). g_id g = goal_id"
    and "\<exists>g\<in>set (goals st2). g_id g = goal_id2"
  shows "\<exists>r v st' r2 v2 st2'.
      create_task dumps now st goal_id task_title task_description = (Ok r, st')
    \<and> verifications st' = verifications st @ [v]
    \<and> v_task_id v = ct_task_id r
    \<and> (\<forall>t\<in>set (tasks st). t_id t \<noteq> ct_task_id r)
    \<and> v_verification_type v = TEXT
    \<and> ct_verification_type r = ''text''
    \<and> v_content v =
        dumps (JObj [(''prompt'', JStr (''Please complete the following task: '' @ task_title)),
                     (''guidelines'', JStr task_description)])
    \<and> v_requirements v =
        dumps (JObj [(''completion_criteria'',
                      JStr ''Task should be completed according to the description'')])
    \<and> ct_verification_content r =
        JObj [(''prompt'', JStr (''Please complete the following task: '' @ task_title)),
              (''guidelines'', JStr task_description)]
    \<and> create_task dumps now2 st2 goal_id2 task_title task_description = (Ok r2, st2')
    \<and> verifications st2' = verifications st2 @ [v2]
    \<and> v_verification_type v2 = v_verification_type v
    \<and> v_content v2 = v_content v
    \<and> v_requirements v2 = v_requirements v
    \<and> ct_verification_content r2 = ct_verification_content r"
proof -
  from first_filter_ex [OF assms(1)] obtain goal
    where goal: "first (filter (\<lambda>g. g_id g = goal_id) (goals st)) = Some goal" by blast
  from first_filter_ex [OF assms(2)] obtain goal2
    where goal2: "first (filter (\<lambda>g. g_id g = goal_id2) (goals st2)) = Some goal2" by blast
  let ?content = "JObj [(''prompt'', JStr (''Please complete the following task: '' @ task_title)),
                     (''guidelines'', JStr task_description)]"
  let ?req = "JObj [(''completion_criteria'',
                      JStr ''Task should be completed according to the description'')]"
  have fresh: "\<forall>t\<in>set (tasks st). t_id t \<noteq> next_id (map t_id (tasks st))"
  proof
    fix t assume "t \<in> set (tasks st)"
    then have "t_id t \<in> set (map t_id (tasks st))" by simp
    from next_id_fresh [OF this] show "t_id t \<noteq> next_id (map t_id (tasks st))" by simp
  qed
  obtain r st' where call: "create_task dumps now st goal_id task_title task_description = (Ok r, st')"
    and r: "ct_task_id r = next_id (map t_id (tasks st))" "ct_verification_type r = ''text''"
      "ct_verification_content r = ?content"
    and v: "verifications st' = verifications st @
             [\<lparr>v_id = next_id (map v_id (verifications st)),
               v_task_id = next_id (map t_id (tasks st)),
               v_verification_type = TEXT,
               v_content = dumps ?content,
               v_requirements = dumps ?req\<rparr>]"
    using create_task_result [OF goal, of dumps now task_title task_description]
    by (simp add: verification_content_def verification_requirements_def)
  obtain r2 st2' where call2: "create_task dumps now2 st2 goal_id2 task_title task_description = (Ok r2, st2')"
    and r2: "ct_verification_content r2 = ?content"
    and v2: "verifications st2' = verifications st2 @
             [\<lparr>v_id = next_id (map v_id (verifications st2)),
               v_task_id = next_id (map t_id (tasks st2)),
               v_verification_type = TEXT,
               v_content = dumps ?content,
               v_requirements = dumps ?req\<rparr>]"
    using create_task_result [OF goal2, of dumps now2 task_title task_description]
    by (simp add: verification_content_def verification_requirements_def)
  let ?v = "\<lparr>v_id = next_id (map v_id (verifications st)),
               v_task_id = next_id (map t_id (tasks st)),
               v_verification_type = TEXT,
               v_content = dumps ?content,
               v_requirements = dumps ?req\<rparr>"
  let ?v2 = "\<lparr>v_id = next_id (map v_id (verifications st2)),
               v_task_id = next_id (map t_id (tasks st2)),
               v_verification_type = TEXT,
               v_content = dumps ?content,
               v_requirements = dumps ?req\<rparr>"
  have "v_task_id ?v = ct_task_id r" "v_verification_type ?v = TEXT"
    "v_content ?v = dumps ?content" "v_requirements ?v = dumps ?req"
    "v_verification_type ?v2 = v_verification_type ?v" "v_content ?v2 = v_content ?v"
    "v_requirements ?v2 = v_requirements ?v" "ct_verification_content r2 = ct_verification_content r"
    "\<forall>t\<in>set (tasks st). t_id t \<noteq> ct_task_id r"
    using r r2 fresh by simp_all
  with call v r call2 v2 show ?thesis by blast
qed

theorem create_task_verification_witness:
  "(\<exists>g\<in>set (goals guitar_db). g_id g = 1)
   \<and> (\<exists>g\<in>set (goals three_steps). g_id g = 1)
   \<and> (\<forall>dumps.
         verifications (snd (create_task dumps 9 guitar_db 1 ''Learn Em'' ''Practice E minor''))
           = [\<lparr>v_id = 1, v_task_id = 1, v_verification_type = TEXT,
               v_content =
                 dumps (JObj [(''prompt'', JStr ''Please complete the following task: Learn Em''),
                              (''guidelines'', JStr ''Practice E minor'')]),
               v_requirements =
                 dumps (JObj [(''completion_criteria'',
                     JStr ''Task should be completed according to the description'')])\<rparr>]
       \<and> verifications (snd (create_task dumps 20 three_steps 1 ''Learn Em'' ''Practice E minor''))
           = verifications (snd (create_task dumps 9 guitar_db 1 ''Learn Em'' ''Practice E minor'')))"
proof -
  have h1: "\<exists>g\<in>set (goals guitar_db). g_id g = 1"
    by (simp add: guitar_db_def guitar_def)
  have h2: "\<exists>g\<in>set (goals three_steps). g_id g = 1"
    by (simp add: three_steps_def guitar_def)
  have n1: "next_id (map v_id (verifications guitar_db)) = 1"
    "next_id (map t_id (tasks guitar_db)) = 1"
    "next_id (map v_id (verifications three_steps)) = 1"
    "next_id (map t_id (tasks three_steps)) = 1"
    by (simp_all add: next_id_def guitar_db_def three_steps_def)
  have e: "verifications guitar_db = []" "verifications three_steps = []"
    by (simp_all add: guitar_db_def three_steps_def)
  have main: "verifications (snd (create_task dumps 9 guitar_db 1 ''Learn Em'' ''Practice E minor''))
           = [\<lparr>v_id = 1, v_task_id = 1, v_verification_type = TEXT,
               v_content =
                 dumps (JObj [(''prompt'', JStr ''Please complete the following task: Learn Em''),
                              (''guidelines'', JStr ''Practice E minor'')]),
               v_requirements =
                 dumps (JObj [(''completion_criteria'',
                     JStr ''Task should be completed according to the description'')])\<rparr>]
       \<and> verifications (snd (create_task dumps 20 three_steps 1 ''Learn Em'' ''Practice E minor''))
           = verifications (snd (create_task dumps 9 guitar_db 1 ''Learn Em'' ''Practice E minor''))"
    for dumps
  proof -
    from create_task_verification [OF h1 h2, of dumps 9 "''Learn Em''" "''Practice E minor''" 20]
    obtain r v st' r2 v2 st2' where
      c1: "create_task dumps 9 guitar_db 1 ''Learn Em'' ''Practice E minor'' = (Ok r, st')"
      and v1: "verifications st' = verifications guitar_db @ [v]"
      and f1: "v_task_id v = ct_task_id r" "v_verification_type v = TEXT"
        "v_content v =
          dumps (JObj [(''prompt'', JStr (''Please complete the following task: '' @ ''Learn Em'')),
                       (''guidelines'', JStr ''Practice E minor'')])"
        "v_requirements v =
          dumps (JObj [(''completion_criteria'',
                        JStr ''Task should be completed according to the description'')])"
      and c2: "create_task dumps 20 three_steps 1 ''Learn Em'' ''Practice E minor'' = (Ok r2, st2')"
      and v2: "verifications st2' = verifications three_steps @ [v2]"
      and f2: "v_verification_type v2 = v_verification_type v" "v_content v2 = v_content v"
        "v_requirements v2 = v_requirements v"
      by blast
    have i1: "ct_task_id r = 1 \<and> v_id v = 1"
      using c1 v1 h1 n1
      by (auto simp: create_task_def get_db_def close_def commit_def add_task_def
          add_verification_def Let_def first_def guitar_db_def guitar_def
          split: option.splits)
    have i2: "v_id v2 = 1 \<and> v_task_id v2 = 1"
      using c2 v2 h2 n1
      by (auto simp: create_task_def get_db_def close_def commit_def add_task_def
          add_verification_def Let_def first_def three_steps_def guitar_def
          split: option.splits)
    have "v = \<lparr>v_id = 1, v_task_id = 1, v_verification_type = TEXT,
               v_content =
                 dumps (JObj [(''prompt'', JStr ''Please complete the following task: Learn Em''),
                              (''guidelines'', JStr ''Practice E minor'')]),
               v_requirements =
                 dumps (JObj [(''completion_criteria'',
                     JStr ''Task should be completed according to the description'')])\<rparr>"
      using f1 i1 by (cases v) simp
    moreover have "v2 = v" using f1 f2 i1 i2 by (cases v; cases v2) simp
    ultimately show ?thesis using c1 c2 v1 v2 e by simp
  qed
  from h1 h2 main show ?thesis by blast
qed

section \<open>create_goal\<close>







text \<open>
  Claim C1, evaluated on the code. The roadmap text \<^verbatim>\<open>[1]\<close> is JSON, but no sequence
  of records. \<^verbatim>\<open>create_goal\<close> has committed the goal before it walks the roadmap, so
  the \<^verbatim>\<open>AttributeError\<close> of the entry \<^verbatim>\<open>1\<close> is answered as an error while the goal
  stays in the store, without any milestone.
\<close>

theorem create_goal_leaves_goal:
  "create_goal loads_sample (empty_db\<lparr>users := [alice]\<rparr>) 1 ''Guitar'' 60 (JStr ''[1]'') JNull =
     (Error (quoted ''int'' @ '' object has no attribute '' @ quoted ''get''),
      \<lparr>users = [alice], goals = [guitar], milestones = [], tasks = [], verifications = []\<rparr>)"
  by (simp add: create_goal_def get_db_def close_def commit_def rollback_def add_goal_def
      Let_def first_def loads_if_str_def loads_sample_def
      empty_db_def alice_def guitar_def next_id_def)

text \<open>
  A roadmap text that \<^verbatim>\<open>json.loads\<close> rejects is caught before the first write: the
  answer is an error and the store is the one before the call.
\<close>

lemma create_goal_unparsed_roadmap:
  assumes "loads s = None"
  shows "create_goal loads st user_id skill_name timeline (JStr s) coach_notes =
     (if \<exists>u\<in>set (users st). u_id u = user_id
      then (Error ''Invalid roadmap JSON format'', st)
      else (Error ''User not found'', st))"
proof (cases "first (filter (\<lambda>u. u_id u = user_id) (users st))")
  case None
  then have "\<not> (\<exists>u\<in>set (users st). u_id u = user_id)" by (simp add: first_filter_None)
  with None show ?thesis by (simp add: create_goal_def get_db_def close_def)
next
  case (Some u)
  from first_filter_Some [OF Some] have "\<exists>u\<in>set (users st). u_id u = user_id" by blast
  with Some assms show ?thesis
    by (simp add: create_goal_def get_db_def close_def loads_if_str_def)
qed

text \<open>
  The same holds for every such roadmap, not only for \<^verbatim>\<open>[1]\<close>: when the user exists and
  both arguments parse, but the roadmap cannot be walked or one of its entries is no dict,
  the answer is an error and the store has gained the goal and nothing else.
\<close>

lemma store_milestones_committed:
  "committed (snd (store_milestones gid idx entries ms db)) = committed db"
proof (induction entries arbitrary: idx ms db)
  case Nil
  show ?case by simp
next
  case (Cons e es)
  show ?case
  proof (cases e)
    case (JObj kvs)
    with Cons show ?thesis by (simp add: Let_def add_milestone_def)
  qed simp_all
qed

lemma store_milestones_Error:
  "\<exists>x\<in>set entries. \<forall>kvs. x \<noteq> JObj kvs \<Longrightarrow>
     \<exists>e. fst (store_milestones gid idx entries ms db) = Error e"
proof (induction entries arbitrary: idx ms db)
  case Nil
  then show ?case by simp
next
  case (Cons e es)
  show ?case
  proof (cases e)
    case (JObj kvs)
    with Cons.prems have "\<exists>x\<in>set es. \<forall>kvs. x \<noteq> JObj kvs" by auto
    from Cons.IH [OF this] JObj show ?thesis by (simp add: Let_def)
  qed simp_all
qed

lemma create_goal_error_after_commit:
  assumes user: "\<exists>u\<in>set (users st). u_id u = user_id"
    and rl: "loads_if_str loads roadmap = Some roadmap_list"
    and cn: "(if truthy coach_notes then loads_if_str loads coach_notes else Some JNull)
               = Some coach_notes_dict"
    and bad: "(\<exists>e. iterate roadmap_list = Error e)
               \<or> (\<exists>entries. iterate roadmap_list = Ok entries
                     \<and> (\<exists>x\<in>set entries. \<forall>kvs. x \<noteq> JObj kvs))"
  shows "\<exists>e. create_goal loads st user_id skill_name timeline roadmap coach_notes =
     (Error e,
      st\<lparr>goals := goals st @
             [\<lparr>g_id = next_id (map g_id (goals st)), g_user_id = user_id,
               g_skill_name = skill_name, g_timeline = timeline,
               g_coach_notes = coach_notes_dict\<rparr>]\<rparr>)"
proof -
  from first_filter_ex [OF user] obtain u where
    u: "first (filter (\<lambda>u. u_id u = user_id) (users st)) = Some u" by blast
  let ?goal = "\<lparr>g_id = next_id (map g_id (goals st)), g_user_id = user_id,
               g_skill_name = skill_name, g_timeline = timeline,
               g_coach_notes = coach_notes_dict\<rparr>"
  let ?db = "commit (add_goal ?goal (get_db st))"
  have c: "committed ?db = st\<lparr>goals := goals st @ [?goal]\<rparr>"
    by (simp add: commit_def add_goal_def get_db_def)
  have step: "create_goal loads st user_id skill_name timeline roadmap coach_notes =
    (case iterate roadmap_list of
       Error e \<Rightarrow> (Error e, close (rollback ?db))
     | Ok entries \<Rightarrow>
         (case store_milestones (g_id ?goal) 0 entries [] ?db of
            (Error e, db) \<Rightarrow> (Error e, close (rollback db))
          | (Ok ms, db) \<Rightarrow>
              (Ok \<lparr>cg_goal_id = g_id ?goal,
                   cg_confirmation = ''Goal '' @ quoted skill_name
                       @ '' created successfully with '' @ str_nat (length ms) @ '' milestones'',
                   cg_skill_name = g_skill_name ?goal,
                   cg_timeline = g_timeline ?goal,
                   cg_milestones_count = length ms\<rparr>,
               close (commit db))))"
    using u rl cn
    by (simp add: create_goal_def Let_def get_db_def split: result.split prod.split)
  from bad show ?thesis
  proof
    assume "\<exists>e. iterate roadmap_list = Error e"
    then obtain e where "iterate roadmap_list = Error e" by blast
    with step c show ?thesis by (simp add: close_def rollback_def)
  next
    assume "\<exists>entries. iterate roadmap_list = Ok entries
                     \<and> (\<exists>x\<in>set entries. \<forall>kvs. x \<noteq> JObj kvs)"
    then obtain entries where it: "iterate roadmap_list = Ok entries"
      and x: "\<exists>x\<in>set entries. \<forall>kvs. x \<noteq> JObj kvs" by blast
    obtain res db where sm: "store_milestones (g_id ?goal) 0 entries [] ?db = (res, db)"
      by (cases "store_milestones (g_id ?goal) 0 entries [] ?db") blast
    from store_milestones_Error [OF x, of "g_id ?goal" 0 "[]" ?db] sm
    obtain e where e: "res = Error e" by auto
    from store_milestones_committed [of "g_id ?goal" 0 entries "[]" ?db] sm
    have "committed db = committed ?db" by simp
    with step it sm e c show ?thesis by (simp add: close_def rollback_def)
  qed
qed

end
